theory Spec2Isabelle
  imports Main "HOL-Library.Word"
begin

unbundle bit_operations_syntax

section \<open>The segment block of \<^verbatim>\<open>internal/store/segment/block/file.go\<close>\<close>

text \<open>
  A shallow embedding of the file-backed segment block. Go's \<^verbatim>\<open>int32\<close> and
  \<^verbatim>\<open>int64\<close> are words of that width; Go's \<^verbatim>\<open>int\<close> is taken as 64 bits wide
  (the width on every 64-bit platform). Methods that mutate the receiver return the new
  block next to Go's \<^verbatim>\<open>error\<close> result (\<open>None\<close> is \<^verbatim>\<open>nil\<close>), and a run-time panic
  is an error value of its own. The append mutex is not modelled: the operations are run one
  after the other.
\<close>

subsection \<open>Data\<close>

type_synonym byte = "8 word"
type_synonym int32 = "32 word"
type_synonym int64 = "64 word"
type_synonym goint = "64 word"

datatype error =
    ErrNoEnoughCapacity
  | ErrOffsetExceeded
  | EOF
  | ErrUnexpectedEOF
  | ErrIO
  | PanicIndexOutOfRange int
  | PanicMakeSliceLen
  | PanicNilInterface

text \<open>The constants of the source file.\<close>

definition fileSegmentBlockHeaderCapacity :: int64 where
  "fileSegmentBlockHeaderCapacity = 1024"

definition v1FileSegmentBlockHeaderLength :: int64 where
  "v1FileSegmentBlockHeaderLength = 4 + 8 + 4 + 8"

definition v1IndexLength :: nat where
  "v1IndexLength = 12"

record blockIndex =
  startOffset :: int64
  length_bi :: int32

text \<open>
  \<^verbatim>\<open>codec.StoredEntry\<close>: the two fields that \<^verbatim>\<open>Read\<close> fills in.
\<close>

record StoredEntry =
  Length :: int32
  Payload :: "byte list"

text \<open>
  The file behind \<^verbatim>\<open>physicalFile\<close>: its bytes and the descriptor's cursor, which
  \<^verbatim>\<open>Write\<close> uses and advances while \<^verbatim>\<open>ReadAt\<close> and \<^verbatim>\<open>WriteAt\<close> leave it alone.
\<close>

record osfile =
  contents :: "byte list"
  cursor :: nat

text \<open>
  The three \<^verbatim>\<open>atomic.Value\<close> flags hold \<open>None\<close> until the first \<^verbatim>\<open>Store\<close>;
  \<^verbatim>\<open>Load().(bool)\<close> panics on such a value.
\<close>

record fileBlock =
  version :: int32
  id_fb :: string
  path :: string
  capacity :: int64
  length_fb :: int64
  number :: int32
  writeOffset :: int64
  readOffset :: int64
  physicalFile :: osfile
  indexes :: "blockIndex list"
  readable :: "bool option"
  appendable :: "bool option"
  fullFlag :: "bool option"
  uncompletedReadRequestCount :: int32
  uncompletedAppendRequestCount :: int32

subsection \<open>Go's library: files, readers, big-endian integers\<close>

text \<open>
  What the device does with a write is a parameter of the model: it takes all the bytes, or
  it fails after some of them.
\<close>

datatype io_outcome = IoOk | IoFail nat

definition put_at :: "byte list \<Rightarrow> nat \<Rightarrow> byte list \<Rightarrow> byte list" where
  "put_at xs off buf =
     take off xs @ replicate (off - length xs) 0 @ buf @ drop (off + length buf) xs"

definition file_Write :: "osfile \<Rightarrow> byte list \<Rightarrow> io_outcome \<Rightarrow> nat \<times> error option \<times> osfile" where
  "file_Write f buf oc =
     (case oc of
        IoOk \<Rightarrow>
          (length buf, None,
           f\<lparr>contents := put_at (contents f) (cursor f) buf,
             cursor := cursor f + length buf\<rparr>)
      | IoFail k \<Rightarrow>
          (length (take k buf), Some ErrIO,
           f\<lparr>contents := put_at (contents f) (cursor f) (take k buf),
             cursor := cursor f + length (take k buf)\<rparr>))"

definition file_WriteAt :: "osfile \<Rightarrow> byte list \<Rightarrow> int64 \<Rightarrow> io_outcome \<Rightarrow> error option \<times> osfile" where
  "file_WriteAt f buf off oc =
     (if off <s 0 then (Some ErrIO, f)
      else case oc of
        IoOk \<Rightarrow> (None, f\<lparr>contents := put_at (contents f) (unat off) buf\<rparr>)
      | IoFail k \<Rightarrow> (Some ErrIO, f\<lparr>contents := put_at (contents f) (unat off) (take k buf)\<rparr>))"

text \<open>
  \<^verbatim>\<open>ReadAt\<close> fills a buffer of \<open>k\<close> bytes from offset \<open>off\<close>; a read that ends before
  the buffer is full is an error (\<^verbatim>\<open>io.EOF\<close>), and the callers drop the bytes then.
\<close>

definition file_ReadAt :: "osfile \<Rightarrow> nat \<Rightarrow> int64 \<Rightarrow> error + byte list" where
  "file_ReadAt f k off =
     (if off <s 0 then Inl ErrIO
      else if k = 0 then Inr []
      else if unat off + k \<le> length (contents f)
        then Inr (take k (drop (unat off) (contents f)))
      else Inl EOF)"

definition be32 :: "int32 \<Rightarrow> byte list" where
  "be32 w = [ucast (drop_bit 24 w), ucast (drop_bit 16 w), ucast (drop_bit 8 w), ucast w]"

definition be64 :: "int64 \<Rightarrow> byte list" where
  "be64 w = [ucast (drop_bit 56 w), ucast (drop_bit 48 w), ucast (drop_bit 40 w),
             ucast (drop_bit 32 w), ucast (drop_bit 24 w), ucast (drop_bit 16 w),
             ucast (drop_bit 8 w), ucast w]"

fun from_be :: "'a::len word \<Rightarrow> byte list \<Rightarrow> 'a word" where
  "from_be acc [] = acc"
| "from_be acc (x # xs) = from_be (push_bit 8 acc OR ucast x) xs"

text \<open>
  \<^verbatim>\<open>binary.Read(reader, binary.BigEndian, &x)\<close> on a \<^verbatim>\<open>bytes.Reader\<close>: the value and
  the bytes left, \<^verbatim>\<open>io.EOF\<close> when nothing is left, \<^verbatim>\<open>io.ErrUnexpectedEOF\<close> when too
  little is.
\<close>

definition binary_Read32 :: "byte list \<Rightarrow> error + (int32 \<times> byte list)" where
  "binary_Read32 rd =
     (if rd = [] then Inl EOF
      else if length rd < 4 then Inl ErrUnexpectedEOF
      else Inr (from_be 0 (take 4 rd), drop 4 rd))"

definition binary_Read64 :: "byte list \<Rightarrow> error + (int64 \<times> byte list)" where
  "binary_Read64 rd =
     (if rd = [] then Inl EOF
      else if length rd < 8 then Inl ErrUnexpectedEOF
      else Inr (from_be 0 (take 8 rd), drop 8 rd))"


text \<open>
  Modelled from the spec: \<^verbatim>\<open>codec.Marshall\<close>, whose package is not among the sources.
  An entry is framed as a 4-byte big-endian length prefix followed by the payload bytes;
  this is the format that \<^verbatim>\<open>Read\<close> and the index rebuild of \<^verbatim>\<open>loadIndex\<close> decode.
\<close>

definition Marshall :: "StoredEntry \<Rightarrow> error + byte list" where
  "Marshall e = Inr (be32 (Length e) @ Payload e)"

subsection \<open>Predicates and capacity\<close>

definition IsFull :: "fileBlock \<Rightarrow> error + bool" where
  "IsFull b = (case fullFlag b of None \<Rightarrow> Inl PanicNilInterface | Some v \<Rightarrow> Inr v)"

definition IsEmpty :: "fileBlock \<Rightarrow> bool" where
  "IsEmpty b = (length_fb b = fileSegmentBlockHeaderCapacity)"


definition IsReadable :: "fileBlock \<Rightarrow> error + bool" where
  "IsReadable b =
     (case appendable b of
        None \<Rightarrow> Inl PanicNilInterface
      | Some a \<Rightarrow> Inr (a \<and> \<not> IsEmpty b))"

text \<open>
  \<^verbatim>\<open>b.number*v1IndexLength\<close> is a product of \<^verbatim>\<open>int32\<close>, widened afterwards.
\<close>

definition remain :: "fileBlock \<Rightarrow> int64 \<Rightarrow> goint" where
  "remain b sizeNeedServed =
     (capacity b - length_fb b - scast (number b * of_nat v1IndexLength) - sizeNeedServed)
       - fileSegmentBlockHeaderCapacity"

subsection \<open>Append\<close>

text \<open>
  The loop over the entries: the buffer, the running length and the provisional index
  records. \<^verbatim>\<open>bytes.Buffer.Write\<close> returns no error, so that branch of the source has
  no counterpart here.
\<close>

fun marshal_entries ::
  "int64 \<Rightarrow> StoredEntry list \<Rightarrow> byte list \<Rightarrow> goint \<Rightarrow> blockIndex list
     \<Rightarrow> error + (byte list \<times> goint \<times> blockIndex list)" where
  "marshal_entries wo [] buf len idxes = Inr (buf, len, idxes)"
| "marshal_entries wo (e # es) buf len idxes =
     (case Marshall e of
        Inl err \<Rightarrow> Inl err
      | Inr data \<Rightarrow>
          marshal_entries wo es (buf @ data) (len + of_nat (length data))
            (idxes @ [\<lparr>startOffset = wo + len, length_bi = of_nat (length data)\<rparr>]))"

definition Append_body ::
  "fileBlock \<Rightarrow> StoredEntry list \<Rightarrow> io_outcome \<Rightarrow> error option \<times> fileBlock" where
  "Append_body b entities wr =
     (if length entities = 0 then (None, b)
      else case marshal_entries (writeOffset b) entities [] 0 [] of
        Inl err \<Rightarrow> (Some err, b)
      | Inr (buf, len, idxes) \<Rightarrow>
          if remain b (len + of_nat v1IndexLength * of_nat (length idxes)) <s len
          then (Some ErrNoEnoughCapacity, b)
          else (case file_Write (physicalFile b) buf wr of
                  (n, err, f) \<Rightarrow>
                    (err,
                     b\<lparr>physicalFile := f,
                       indexes := indexes b @ idxes,
                       number := number b + of_nat (length idxes),
                       writeOffset := writeOffset b + of_nat n\<rparr>)))"

text \<open>
  The pending-append counter goes up on entry and, by the deferred function, down on
  every return.
\<close>

definition Append ::
  "fileBlock \<Rightarrow> StoredEntry list \<Rightarrow> io_outcome \<Rightarrow> error option \<times> fileBlock" where
  "Append b entities wr =
     (case Append_body
             (b\<lparr>uncompletedAppendRequestCount := uncompletedAppendRequestCount b + 1\<rparr>)
             entities wr of
        (err, b') \<Rightarrow>
          (err, b'\<lparr>uncompletedAppendRequestCount := uncompletedAppendRequestCount b' - 1\<rparr>))"

subsection \<open>Header\<close>

definition header_bytes :: "fileBlock \<Rightarrow> byte list" where
  "header_bytes b = be32 (version b) @ be64 (capacity b) @ be64 (length_fb b) @ be32 (number b)"

definition persistHeader :: "fileBlock \<Rightarrow> io_outcome \<Rightarrow> error option \<times> fileBlock" where
  "persistHeader b wr =
     (case file_WriteAt (physicalFile b) (header_bytes b) 0 wr of
        (err, f) \<Rightarrow> (err, b\<lparr>physicalFile := f\<rparr>))"

definition loadHeader :: "fileBlock \<Rightarrow> error option \<times> fileBlock" where
  "loadHeader b =
     (case file_ReadAt (physicalFile b) (unat v1FileSegmentBlockHeaderLength) 0 of
        Inl err \<Rightarrow> (Some err, b)
      | Inr hdr \<Rightarrow>
     (case binary_Read32 hdr of
        Inl err \<Rightarrow> (Some err, b)
      | Inr (v, r1) \<Rightarrow>
     (case binary_Read64 r1 of
        Inl err \<Rightarrow> (Some err, b\<lparr>version := v\<rparr>)
      | Inr (c, r2) \<Rightarrow>
     (case binary_Read64 r2 of
        Inl err \<Rightarrow> (Some err, b\<lparr>version := v, capacity := c\<rparr>)
      | Inr (l, r3) \<Rightarrow>
     (case binary_Read32 r3 of
        Inl err \<Rightarrow> (Some err, b\<lparr>version := v, capacity := c, length_fb := l\<rparr>)
      | Inr (n, r4) \<Rightarrow>
          (None, b\<lparr>version := v, capacity := c, length_fb := l, number := n,
                   writeOffset := v1FileSegmentBlockHeaderLength + l\<rparr>))))))"

subsection \<open>Index: persisting, loading, rebuilding\<close>

fun index_bytes :: "blockIndex list \<Rightarrow> byte list" where
  "index_bytes [] = []"
| "index_bytes (bi # bis) = be64 (startOffset bi) @ be32 (length_bi bi) @ index_bytes bis"

definition persistIndex :: "fileBlock \<Rightarrow> io_outcome \<Rightarrow> error option \<times> fileBlock" where
  "persistIndex b wr =
     (case IsFull b of
        Inl p \<Rightarrow> (Some p, b)
      | Inr full \<Rightarrow>
          if \<not> full then (None, b)
          else (case file_WriteAt (physicalFile b) (index_bytes (indexes b)) (writeOffset b) wr of
                  (err, f) \<Rightarrow> (err, b\<lparr>physicalFile := f\<rparr>)))"

text \<open>
  The loop of the full-block path: \<open>k\<close> records are still to be decoded, the next one into
  slot \<open>idx\<close>. A failing second read leaves the offset it has already stored.
\<close>

fun decode_indexes ::
  "byte list \<Rightarrow> blockIndex list \<Rightarrow> nat \<Rightarrow> nat \<Rightarrow> error option \<times> blockIndex list" where
  "decode_indexes rd idxs idx 0 = (None, idxs)"
| "decode_indexes rd idxs idx (Suc k) =
     (case binary_Read64 rd of
        Inl err \<Rightarrow> (Some err, idxs)
      | Inr (so, rd1) \<Rightarrow>
          (case binary_Read32 rd1 of
             Inl err \<Rightarrow> (Some err, idxs[idx := (idxs ! idx)\<lparr>startOffset := so\<rparr>])
           | Inr (ln, rd2) \<Rightarrow>
               decode_indexes rd2 (idxs[idx := \<lparr>startOffset = so, length_bi = ln\<rparr>])
                 (Suc idx) k))"

text \<open>
  The loop of the partial-block path: a 4-byte length prefix is read at \<open>off\<close>, recorded
  with \<open>off\<close>, and \<open>off\<close> moves past the prefix and that many bytes.
\<close>

fun rebuild_indexes ::
  "osfile \<Rightarrow> int64 \<Rightarrow> blockIndex list \<Rightarrow> nat \<Rightarrow> nat \<Rightarrow> error option \<times> blockIndex list" where
  "rebuild_indexes f off idxs idx 0 = (None, idxs)"
| "rebuild_indexes f off idxs idx (Suc k) =
     (case file_ReadAt f 4 off of
        Inl err \<Rightarrow> (Some err, idxs)
      | Inr ld \<Rightarrow>
          (case binary_Read32 ld of
             Inl err \<Rightarrow> (Some err, idxs)
           | Inr (entityLen, _) \<Rightarrow>
               rebuild_indexes f (off + (4 + scast entityLen))
                 (idxs[idx := \<lparr>startOffset = off, length_bi = entityLen\<rparr>]) (Suc idx) k))"

definition loadIndex :: "fileBlock \<Rightarrow> error option \<times> fileBlock" where
  "loadIndex b =
     (if number b <s 0 then (Some PanicMakeSliceLen, b)
      else
        let b1 = b\<lparr>indexes := replicate (nat (sint (number b))) \<lparr>startOffset = 0, length_bi = 0\<rparr>\<rparr>
        in case IsFull b1 of
          Inl p \<Rightarrow> (Some p, b1)
        | Inr full \<Rightarrow>
            if full then
              (if number b1 * of_nat v1IndexLength <s 0 then (Some PanicMakeSliceLen, b1)
               else case file_ReadAt (physicalFile b1)
                           (nat (sint (number b1 * of_nat v1IndexLength))) (writeOffset b1) of
                 Inl err \<Rightarrow> (Some err, b1)
               | Inr idxData \<Rightarrow>
                   (case decode_indexes idxData (indexes b1) 0 (length (indexes b1)) of
                      (err, idxs) \<Rightarrow> (err, b1\<lparr>indexes := idxs\<rparr>)))
            else
              (case rebuild_indexes (physicalFile b1) fileSegmentBlockHeaderCapacity
                      (indexes b1) 0 (nat (sint (number b1))) of
                 (err, idxs) \<Rightarrow> (err, b1\<lparr>indexes := idxs\<rparr>)))"

definition validate :: "fileBlock \<Rightarrow> error option \<times> fileBlock" where
  "validate b = (None, b)"

definition Initialize :: "fileBlock \<Rightarrow> error option \<times> fileBlock" where
  "Initialize b =
     (case loadHeader b of
        (Some err, b1) \<Rightarrow> (Some err, b1)
      | (None, b1) \<Rightarrow>
          (case loadIndex b1 of
             (Some err, b2) \<Rightarrow> (Some err, b2)
           | (None, b2) \<Rightarrow>
               (case validate b2 of
                  (Some err, b3) \<Rightarrow> (Some err, b3)
                | (None, b3) \<Rightarrow> (None, b3))))"

subsection \<open>Read\<close>





subsection \<open>Closing for writes\<close>

text \<open>
  The wait for pending appends. Nothing else runs in this model, so the loop ends at once
  or never; not returning is \<open>None\<close>.
\<close>

partial_function (option) wait_appends :: "fileBlock \<Rightarrow> fileBlock option" where
  "wait_appends b =
     (if uncompletedAppendRequestCount b \<noteq> 0 then wait_appends b else Some b)"

declare wait_appends.simps [code]

definition CloseWrite ::
  "fileBlock \<Rightarrow> io_outcome \<Rightarrow> io_outcome \<Rightarrow> (error option \<times> fileBlock) option" where
  "CloseWrite b wr_header wr_index =
     (case wait_appends (b\<lparr>appendable := Some False\<rparr>) of
        None \<Rightarrow> None
      | Some b1 \<Rightarrow>
          (case persistHeader b1 wr_header of
             (Some err, b2) \<Rightarrow> Some (Some err, b2)
           | (None, b2) \<Rightarrow>
               (case persistIndex b2 wr_index of
                  (Some err, b3) \<Rightarrow> Some (Some err, b3)
                | (None, b3) \<Rightarrow> Some (None, b3))))"

subsection \<open>A freshly created block\<close>

text \<open>
  Modelled from the spec: the allocator that creates a block is not among the sources. It
  preallocates a file of exactly \<open>capacity\<close> bytes, writes an initial header with
  \<open>length = 0\<close> and \<open>number = 0\<close> and zero-fills the rest; the block is then active
  (appendable, readable, not full), its \<open>writeOffset\<close> is the header-region size plus
  \<open>length\<close>, and entries are written at \<open>writeOffset\<close>, so the descriptor stands there.
\<close>

definition fresh_block :: "int64 \<Rightarrow> fileBlock" where
  "fresh_block cap =
     \<lparr>version = 1, id_fb = ''block'', path = ''block'', capacity = cap, length_fb = 0,
      number = 0, writeOffset = fileSegmentBlockHeaderCapacity,
      readOffset = fileSegmentBlockHeaderCapacity,
      physicalFile =
        \<lparr>contents = be32 1 @ be64 cap @ be64 0 @ be32 0 @ replicate (unat cap - 24) 0,
         cursor = unat fileSegmentBlockHeaderCapacity\<rparr>,
      indexes = [], readable = Some True, appendable = Some True, fullFlag = Some False,
      uncompletedReadRequestCount = 0, uncompletedAppendRequestCount = 0\<rparr>"

subsection \<open>Entries and blocks of the scenarios\<close>

text \<open>Payloads of 3, of 5, of 0 and of 36 bytes.\<close>

definition entry_abc :: StoredEntry where
  "entry_abc = \<lparr>Length = 3, Payload = [97, 98, 99]\<rparr>"

definition entry_hello :: StoredEntry where
  "entry_hello = \<lparr>Length = 5, Payload = [104, 101, 108, 108, 111]\<rparr>"

definition entry_empty :: StoredEntry where
  "entry_empty = \<lparr>Length = 0, Payload = []\<rparr>"

definition entry_36 :: StoredEntry where
  "entry_36 = \<lparr>Length = 36, Payload = replicate 36 0\<rparr>"

text \<open>
  One entry appended to a fresh block; two in one batch; one entry with an empty payload;
  the block of the capacity scenario (\<open>capacity = 1100\<close>, \<open>length = 60\<close>, \<open>number = 2\<close>);
  a fresh block closed for writes.
\<close>

definition block_one :: fileBlock where
  "block_one = snd (Append (fresh_block 2048) [entry_abc] IoOk)"

definition block_two :: fileBlock where
  "block_two = snd (Append (fresh_block 2048) [entry_abc, entry_hello] IoOk)"

definition block_empty_entry :: fileBlock where
  "block_empty_entry = snd (Append (fresh_block 2048) [entry_empty] IoOk)"

definition block_s4 :: fileBlock where
  "block_s4 = (fresh_block 1100)\<lparr>length_fb := 60, number := 2\<rparr>"

definition block_sealed :: fileBlock where
  "block_sealed = (fresh_block 2048)\<lparr>appendable := Some False\<rparr>"

subsection \<open>The vocabulary of the properties\<close>

text \<open>The framed form of an entry, and of a sequence of entries laid end to end.\<close>

definition frame :: "StoredEntry \<Rightarrow> byte list" where
  "frame e = be32 (Length e) @ Payload e"

definition frames :: "StoredEntry list \<Rightarrow> byte list" where
  "frames es = concat (map frame es)"


text \<open>
  The index records of entries packed from offset \<open>off\<close>: each record holds the start of
  its entry and the framed size.
\<close>

fun index_of :: "nat \<Rightarrow> StoredEntry list \<Rightarrow> blockIndex list" where
  "index_of off [] = []"
| "index_of off (e # es) =
     \<lparr>startOffset = of_nat off, length_bi = of_nat (length (frame e))\<rparr>
       # index_of (off + length (frame e)) es"

text \<open>
  A block that stores the entries \<open>es\<close> from offset \<open>base\<close>: it counts them, its index
  holds their records, and the file holds their frames there.
\<close>

definition holds_entries :: "fileBlock \<Rightarrow> nat \<Rightarrow> StoredEntry list \<Rightarrow> bool" where
  "holds_entries b base es =
     (number b = of_nat (length es) \<and> indexes b = index_of base es
      \<and> base + length (frames es) \<le> length (contents (physicalFile b))
      \<and> take (length (frames es)) (drop base (contents (physicalFile b))) = frames es)"

text \<open>The provisional records that the loop of \<^verbatim>\<open>Append\<close> builds.\<close>

fun provisional :: "int64 \<Rightarrow> goint \<Rightarrow> StoredEntry list \<Rightarrow> blockIndex list" where
  "provisional wo len [] = []"
| "provisional wo len (e # es) =
     \<lparr>startOffset = wo + len, length_bi = of_nat (length (frame e))\<rparr>
       # provisional wo (len + of_nat (length (frame e))) es"


text \<open>
  The packing property in the spec's words: every record starts where the records before
  it end, the first one at the header-region size.
\<close>

fun packed_from :: "int \<Rightarrow> blockIndex list \<Rightarrow> bool" where
  "packed_from off [] = True"
| "packed_from off (bi # bis) =
     (sint (startOffset bi) = off \<and> packed_from (off + sint (length_bi bi)) bis)"

definition packing :: "fileBlock \<Rightarrow> bool" where
  "packing b = packed_from 1024 (take (nat (sint (number b))) (indexes b))"

section \<open>Evaluating the model on concrete blocks\<close>

lemma rebuild_indexes_numeral:
  "rebuild_indexes f off idxs idx (numeral n) =
     (case file_ReadAt f 4 off of
        Inl err \<Rightarrow> (Some err, idxs)
      | Inr ld \<Rightarrow>
          (case binary_Read32 ld of
             Inl err \<Rightarrow> (Some err, idxs)
           | Inr (entityLen, _) \<Rightarrow>
               rebuild_indexes f (off + (4 + scast entityLen))
                 (idxs[idx := \<lparr>startOffset = off, length_bi = entityLen\<rparr>]) (Suc idx)
                 (pred_numeral n)))"
  by (simp add: numeral_eq_Suc)

lemma decode_indexes_numeral:
  "decode_indexes rd idxs idx (numeral n) =
     (case binary_Read64 rd of
        Inl err \<Rightarrow> (Some err, idxs)
      | Inr (so, rd1) \<Rightarrow>
          (case binary_Read32 rd1 of
             Inl err \<Rightarrow> (Some err, idxs[idx := (idxs ! idx)\<lparr>startOffset := so\<rparr>])
           | Inr (ln, rd2) \<Rightarrow>
               decode_indexes rd2 (idxs[idx := \<lparr>startOffset = so, length_bi = ln\<rparr>])
                 (Suc idx) (pred_numeral n)))"
  by (simp add: numeral_eq_Suc)

lemma replicate_blockIndex_numeral:
  "replicate (numeral n) (bi :: blockIndex) = bi # replicate (pred_numeral n) bi"
  by (simp add: numeral_eq_Suc)

lemmas block_defs =
  fresh_block_def entry_abc_def entry_hello_def entry_empty_def entry_36_def
  block_one_def block_two_def block_empty_entry_def block_s4_def block_sealed_def
  Append_def Append_body_def Marshall_def remain_def
  file_Write_def file_WriteAt_def file_ReadAt_def put_at_def
  be32_def be64_def binary_Read32_def binary_Read64_def
  fileSegmentBlockHeaderCapacity_def v1IndexLength_def v1FileSegmentBlockHeaderLength_def
  loadHeader_def loadIndex_def IsFull_def persistIndex_def persistHeader_def header_bytes_def
  Initialize_def validate_def CloseWrite_def wait_appends.simps
  rebuild_indexes_numeral decode_indexes_numeral replicate_blockIndex_numeral
  Let_def word_sless_alt word_sle_eq replicate_add [symmetric]


section \<open>Machine integers within their range\<close>

lemma sint_of_nat_64:
  assumes "n < 2 ^ 63"
  shows "sint (of_nat n :: 64 word) = int n"
proof -
  have "sint (word_of_int (int n) :: 64 word) = signed_take_bit 63 (int n)"
    by (simp only: sint_sbintrunc') simp
  moreover have "signed_take_bit 63 (int n) = int n"
  proof (rule signed_take_bit_int_eq_self)
    show "- (2 ^ 63) \<le> int n" by (rule order_trans [of _ 0]) simp_all
    have "int n < int (2 ^ 63)" using assms by (simp only: of_nat_less_iff)
    then show "int n < 2 ^ 63" by simp
  qed
  ultimately show ?thesis by simp
qed



lemma sint_scast_32_64: "sint (scast (w :: 32 word) :: 64 word) = sint w"
  by (simp add: sint_up_scast is_up)



lemma sint_sub_64:
  "- (2 ^ 63) \<le> sint a - sint b \<Longrightarrow> sint a - sint b < 2 ^ 63
   \<Longrightarrow> sint (a - b :: 64 word) = sint a - sint b"
  by (simp add: sint_word_ariths signed_take_bit_int_eq_self)

lemma sint_mult_32:
  "- (2 ^ 31) \<le> sint a * sint b \<Longrightarrow> sint a * sint b < 2 ^ 31
   \<Longrightarrow> sint (a * b :: 32 word) = sint a * sint b"
  by (simp add: sint_word_ariths signed_take_bit_int_eq_self)

section \<open>Frames and their index records\<close>



lemma frames_append: "frames (xs @ ys) = frames xs @ frames ys"
  by (simp add: frames_def)

lemma frames_Cons: "frames (e # es) = frame e @ frames es"
  by (simp add: frames_def)


lemma length_index_of: "length (index_of off es) = length es"
  by (induction es arbitrary: off) simp_all

lemma index_of_append:
  "index_of base (es @ es') = index_of base es @ index_of (base + length (frames es)) es'"
  by (induction es arbitrary: base) (simp_all add: frames_def add.assoc)



lemma length_provisional: "length (provisional wo len es) = length es"
  by (induction es arbitrary: len) simp_all

lemma provisional_index_of:
  "provisional (of_nat a) (of_nat k) es = index_of (a + k) es"
proof (induction es arbitrary: k)
  case Nil
  show ?case by simp
next
  case (Cons e es)
  have "provisional (of_nat a) (of_nat (k + length (frame e))) es
          = index_of (a + (k + length (frame e))) es"
    by (rule Cons.IH)
  then show ?case by (simp add: add.assoc)
qed

section \<open>Regions of the file\<close>



lemma put_at_region:
  assumes reg: "take (length A) (drop base xs) = A" and fits: "base + length A \<le> length xs"
  shows "take (length (A @ B)) (drop base (put_at xs (base + length A) B)) = A @ B"
    and "base + length (A @ B) \<le> length (put_at xs (base + length A) B)"
proof -
  have "take (base + length A) xs = take base xs @ take (length A) (drop base xs)"
    by (simp add: take_add)
  then have t: "take (base + length A) xs = take base xs @ A" by (simp only: reg)
  have lb: "length (take base xs) = base" using fits by simp
  have p: "put_at xs (base + length A) B
             = take base xs @ A @ B @ drop (base + length A + length B) xs"
    using fits by (simp add: put_at_def t)
  have "drop base (put_at xs (base + length A) B)
          = A @ B @ drop (base + length A + length B) xs"
    unfolding p using lb by (metis append_eq_conv_conj)
  then show "take (length (A @ B)) (drop base (put_at xs (base + length A) B)) = A @ B"
    by simp
  show "base + length (A @ B) \<le> length (put_at xs (base + length A) B)"
    unfolding p using lb by simp
qed

section \<open>Header and emptiness\<close>

lemma loadHeader_writeOffset:
  "loadHeader b = (None, b') \<Longrightarrow> writeOffset b' = 24 + length_fb b'"
  by (auto simp: loadHeader_def v1FileSegmentBlockHeaderLength_def
      split: sum.splits prod.splits)

text \<open>
  C6. The claim: a successful \<^verbatim>\<open>loadHeader\<close> sets \<open>writeOffset = 1024 + L\<close>. The code
  adds the length of the header fields, 24, instead of the size of the header region: on
  the header of a fresh block, where \<open>L = 0\<close>, it leaves \<open>writeOffset = 24\<close>.
\<close>

theorem loadHeader_fresh_writeOffset:
  "fst (loadHeader (fresh_block 2048)) = None
   \<and> length_fb (snd (loadHeader (fresh_block 2048))) = 0
   \<and> writeOffset (snd (loadHeader (fresh_block 2048))) = 24"
  by (simp add: block_defs)

text \<open>
  C9. The claim: \<^verbatim>\<open>IsEmpty\<close> holds exactly when \<open>length = 0\<close>. The code compares
  \<open>length\<close> with the size of the header region: a block is reported empty exactly when
  \<open>length = 1024\<close>, and a block with \<open>length = 0\<close> is reported not empty.
\<close>

theorem IsEmpty_compares_header_capacity:
  "(IsEmpty b \<longleftrightarrow> length_fb b = 1024)
   \<and> \<not> IsEmpty (b\<lparr>length_fb := 0\<rparr>)
   \<and> \<not> IsEmpty (fresh_block 2048)"
  by (simp add: IsEmpty_def fileSegmentBlockHeaderCapacity_def fresh_block_def)

section \<open>Append\<close>

lemma marshal_entries_eq:
  "marshal_entries wo es buf len idxes =
     Inr (buf @ frames es, len + of_nat (length (frames es)), idxes @ provisional wo len es)"
proof (induction es arbitrary: buf len idxes)
  case Nil
  show ?case by (simp add: frames_def)
next
  case (Cons e es)
  show ?case
    by (simp add: Cons.IH Marshall_def frames_Cons frame_def add.assoc)
qed

lemma file_Write_error: "fst (snd (file_Write f buf wr)) \<noteq> Some ErrNoEnoughCapacity"
  by (cases wr) (simp_all add: file_Write_def)

lemma Append_body_capacity:
  assumes "entities \<noteq> []"
  shows "fst (Append_body b entities wr) = Some ErrNoEnoughCapacity \<longleftrightarrow>
           remain b (of_nat (length (frames entities)) + 12 * of_nat (length entities))
             <s of_nat (length (frames entities))"
  using assms file_Write_error [of "physicalFile b" "frames entities" wr]
  by (auto simp: Append_body_def marshal_entries_eq length_provisional v1IndexLength_def
      split: prod.splits)

lemma Append_body_rejected:
  "fst (Append_body b entities wr) = Some ErrNoEnoughCapacity \<Longrightarrow>
     snd (Append_body b entities wr) = b"
  using file_Write_error [of "physicalFile b" "frames entities" wr]
  by (simp add: Append_body_def marshal_entries_eq split: if_splits prod.splits)

lemma Append_fst:
  "fst (Append b entities wr) =
     fst (Append_body
            (b\<lparr>uncompletedAppendRequestCount := uncompletedAppendRequestCount b + 1\<rparr>)
            entities wr)"
  by (simp add: Append_def split: prod.splits)

lemma Append_capacity_word:
  assumes "entities \<noteq> []"
  shows "fst (Append b entities wr) = Some ErrNoEnoughCapacity \<longleftrightarrow>
           capacity b - length_fb b - scast (number b * 12)
             - (of_nat (length (frames entities)) + 12 * of_nat (length entities)) - 1024
             <s of_nat (length (frames entities))"
  unfolding Append_fst Append_body_capacity [OF assms]
  by (simp add: remain_def v1IndexLength_def fileSegmentBlockHeaderCapacity_def)

lemma Append_rejected:
  assumes "fst (Append b entities wr) = Some ErrNoEnoughCapacity"
  shows "snd (Append b entities wr) = b"
proof -
  let ?b1 = "b\<lparr>uncompletedAppendRequestCount := uncompletedAppendRequestCount b + 1\<rparr>"
  have "fst (Append_body ?b1 entities wr) = Some ErrNoEnoughCapacity"
    using assms by (simp only: Append_fst)
  then have "snd (Append_body ?b1 entities wr) = ?b1" by (rule Append_body_rejected)
  then show ?thesis
    by (cases "Append_body ?b1 entities wr") (simp add: Append_def)
qed

lemma remain_int:
  assumes "0 \<le> sint (length_fb b)" "sint (length_fb b) \<le> sint (capacity b)"
    and "sint (capacity b) \<le> 2 ^ 62"
    and "0 \<le> sint (number b)" "sint (number b) * 12 < 2 ^ 31"
    and "P + 12 * n \<le> 2 ^ 62"
  shows "sint (capacity b - length_fb b - scast (number b * 12)
             - (of_nat P + 12 * of_nat n) - 1024)
         = sint (capacity b) - sint (length_fb b) - sint (number b) * 12
             - (int P + int n * 12) - 1024"
    and "sint (of_nat P :: 64 word) = int P"
proof -
  have n12: "sint (number b * 12) = sint (number b) * 12"
    using assms(4,5) by (subst sint_mult_32) simp_all
  have sc: "sint (scast (number b * 12) :: 64 word) = sint (number b) * 12"
    by (simp only: sint_scast_32_64 n12)
  have pn: "P + 12 * n < 2 ^ 63" using assms(6) by (rule le_less_trans) simp
  have "(of_nat P + 12 * of_nat n :: 64 word) = of_nat (P + 12 * n)" by simp
  then have req: "sint (of_nat P + 12 * of_nat n :: 64 word) = int P + int n * 12"
    using sint_of_nat_64 [OF pn] by simp
  have i6: "int P + int n * 12 \<le> 2 ^ 62"
  proof -
    have "int (P + 12 * n) \<le> int (2 ^ 62)" using assms(6) by (simp only: of_nat_le_iff)
    then show ?thesis by simp
  qed
  have d1: "sint (capacity b - length_fb b) = sint (capacity b) - sint (length_fb b)"
    using assms(1,2,3) by (subst sint_sub_64) simp_all
  have d2: "sint (capacity b - length_fb b - scast (number b * 12))
              = sint (capacity b) - sint (length_fb b) - sint (number b) * 12"
    using assms(1-5) by (subst sint_sub_64) (simp_all add: d1 sc)
  have d3: "sint (capacity b - length_fb b - scast (number b * 12)
                    - (of_nat P + 12 * of_nat n))
              = sint (capacity b) - sint (length_fb b) - sint (number b) * 12
                  - (int P + int n * 12)"
    using assms(1-5) i6 by (subst sint_sub_64) (simp_all only: d2 req, simp_all)
  show "sint (capacity b - length_fb b - scast (number b * 12)
             - (of_nat P + 12 * of_nat n) - 1024)
         = sint (capacity b) - sint (length_fb b) - sint (number b) * 12
             - (int P + int n * 12) - 1024"
    using assms(1-5) i6 by (subst sint_sub_64) (simp_all only: d3, simp_all)
  have "P < 2 ^ 63" using pn by simp
  then show "sint (of_nat P :: 64 word) = int P" by (rule sint_of_nat_64)
qed

text \<open>
  C3. For every non-empty batch with framed bytes \<open>P\<close> in total and \<open>n\<close> entries,
  \<^verbatim>\<open>Append\<close> returns \<^verbatim>\<open>ErrNoEnoughCapacity\<close> exactly when
  \<open>P > capacity - length - number * 12 - (P + n * 12) - 1024\<close>, and then the block, with
  its index, its counters and its file, is as before. The formula is the one the code
  computes, in Go's \<^verbatim>\<open>int64\<close> with the product \<open>number * 12\<close> in \<^verbatim>\<open>int32\<close>; where the
  sizes are such that nothing wraps around, it is the same formula over the integers.
\<close>

theorem Append_capacity_check:
  assumes "entities \<noteq> []"
  shows "(fst (Append b entities wr) = Some ErrNoEnoughCapacity \<longleftrightarrow>
            capacity b - length_fb b - scast (number b * 12)
              - (of_nat (length (frames entities)) + 12 * of_nat (length entities)) - 1024
              <s of_nat (length (frames entities)))
       \<and> (fst (Append b entities wr) = Some ErrNoEnoughCapacity \<longrightarrow>
            snd (Append b entities wr) = b)
       \<and> (0 \<le> sint (length_fb b) \<and> sint (length_fb b) \<le> sint (capacity b)
            \<and> sint (capacity b) \<le> 2 ^ 62
            \<and> 0 \<le> sint (number b) \<and> sint (number b) * 12 < 2 ^ 31
            \<and> length (frames entities) + 12 * length entities \<le> 2 ^ 62 \<longrightarrow>
            (fst (Append b entities wr) = Some ErrNoEnoughCapacity \<longleftrightarrow>
               sint (capacity b) - sint (length_fb b) - sint (number b) * 12
                 - (int (length (frames entities)) + int (length entities) * 12) - 1024
               < int (length (frames entities))))"
proof (intro conjI impI)
  show w: "fst (Append b entities wr) = Some ErrNoEnoughCapacity \<longleftrightarrow>
            capacity b - length_fb b - scast (number b * 12)
              - (of_nat (length (frames entities)) + 12 * of_nat (length entities)) - 1024
              <s of_nat (length (frames entities))"
    by (rule Append_capacity_word [OF assms])
  show "snd (Append b entities wr) = b"
    if "fst (Append b entities wr) = Some ErrNoEnoughCapacity"
    using that by (rule Append_rejected)
  show "fst (Append b entities wr) = Some ErrNoEnoughCapacity \<longleftrightarrow>
          sint (capacity b) - sint (length_fb b) - sint (number b) * 12
            - (int (length (frames entities)) + int (length entities) * 12) - 1024
          < int (length (frames entities))"
    if r: "0 \<le> sint (length_fb b) \<and> sint (length_fb b) \<le> sint (capacity b)
            \<and> sint (capacity b) \<le> 2 ^ 62
            \<and> 0 \<le> sint (number b) \<and> sint (number b) * 12 < 2 ^ 31
            \<and> length (frames entities) + 12 * length entities \<le> 2 ^ 62"
  proof -
    from r have r1: "0 \<le> sint (length_fb b)" and r2: "sint (length_fb b) \<le> sint (capacity b)"
      and r3: "sint (capacity b) \<le> 2 ^ 62" and r4: "0 \<le> sint (number b)"
      and r5: "sint (number b) * 12 < 2 ^ 31"
      and r6: "length (frames entities) + 12 * length entities \<le> 2 ^ 62"
      by simp_all
    show ?thesis
      unfolding w word_sless_alt
      by (simp only: remain_int [OF r1 r2 r3 r4 r5 r6])
  qed
qed

theorem Append_capacity_check_witness:
  "[entry_36] \<noteq> []
   \<and> 0 \<le> sint (length_fb block_s4) \<and> sint (length_fb block_s4) \<le> sint (capacity block_s4)
   \<and> sint (capacity block_s4) \<le> 2 ^ 62
   \<and> 0 \<le> sint (number block_s4) \<and> sint (number block_s4) * 12 < 2 ^ 31
   \<and> length (frames [entry_36]) + 12 * length [entry_36] \<le> 2 ^ 62
   \<and> sint (capacity block_s4) - sint (length_fb block_s4) - sint (number block_s4) * 12
        - (int (length (frames [entry_36])) + int (length [entry_36]) * 12) - 1024
      < int (length (frames [entry_36]))
   \<and> fst (Append block_s4 [entry_36] IoOk) = Some ErrNoEnoughCapacity
   \<and> snd (Append block_s4 [entry_36] IoOk) = block_s4"
proof -
  have ne: "[entry_36] \<noteq> []" by simp
  have rng: "0 \<le> sint (length_fb block_s4) \<and> sint (length_fb block_s4) \<le> sint (capacity block_s4)
     \<and> sint (capacity block_s4) \<le> 2 ^ 62
     \<and> 0 \<le> sint (number block_s4) \<and> sint (number block_s4) * 12 < 2 ^ 31
     \<and> length (frames [entry_36]) + 12 * length [entry_36] \<le> 2 ^ 62"
    by (simp add: block_s4_def fresh_block_def entry_36_def frames_def frame_def be32_def)
  have lt: "sint (capacity block_s4) - sint (length_fb block_s4) - sint (number block_s4) * 12
        - (int (length (frames [entry_36])) + int (length [entry_36]) * 12) - 1024
      < int (length (frames [entry_36]))"
    by (simp add: block_s4_def fresh_block_def entry_36_def frames_def frame_def be32_def)
  from Append_capacity_check [OF ne, of block_s4 IoOk] rng lt
  have "fst (Append block_s4 [entry_36] IoOk) = Some ErrNoEnoughCapacity
        \<and> snd (Append block_s4 [entry_36] IoOk) = block_s4"
    by blast
  with ne rng lt show ?thesis by blast
qed

lemma Append_length_fb: "length_fb (snd (Append b entities wr)) = length_fb b"
  by (simp add: Append_def Append_body_def split: sum.splits prod.splits)

lemma Append_counter:
  "uncompletedAppendRequestCount (snd (Append b es wr)) = uncompletedAppendRequestCount b"
  by (simp add: Append_def Append_body_def split: sum.splits prod.splits)


text \<open>
  C2. The claim: a successful \<^verbatim>\<open>Append\<close> advances \<open>number\<close>, \<open>writeOffset\<close> and
  \<open>length\<close> by the batch totals; one framed entry of 7 bytes on a fresh block leaves
  \<open>number = 1\<close>, \<open>length = 7\<close>, \<open>writeOffset = 1031\<close>, \<open>indexes = [(1024, 7)]\<close>. The
  code advances \<open>number\<close> and \<open>writeOffset\<close> and appends the record, and never assigns
  \<open>length\<close>: it is still 0.
\<close>

theorem Append_one_entry_fresh:
  "fst (Append (fresh_block 2048) [entry_abc] IoOk) = None
   \<and> number (snd (Append (fresh_block 2048) [entry_abc] IoOk)) = 1
   \<and> writeOffset (snd (Append (fresh_block 2048) [entry_abc] IoOk)) = 1031
   \<and> indexes (snd (Append (fresh_block 2048) [entry_abc] IoOk))
       = [\<lparr>startOffset = 1024, length_bi = 7\<rparr>]
   \<and> length_fb (snd (Append (fresh_block 2048) [entry_abc] IoOk)) = 0"
  by (simp add: block_defs)

text \<open>
  C5. The claim: when the write fails, \<^verbatim>\<open>Append\<close> returns the error and \<open>number\<close>,
  \<open>writeOffset\<close> and \<open>indexes\<close> are as before. The code does not look at the error before
  it updates them: after a write that fails with no byte written, the error is returned,
  the file is as before, and yet the block counts one entry and holds its index record;
  after a write that fails behind three bytes, \<open>writeOffset\<close> has moved by three.
\<close>

theorem Append_failed_write_advances:
  "fst (Append (fresh_block 2048) [entry_abc] (IoFail 0)) = Some ErrIO
   \<and> physicalFile (snd (Append (fresh_block 2048) [entry_abc] (IoFail 0)))
       = physicalFile (fresh_block 2048)
   \<and> number (snd (Append (fresh_block 2048) [entry_abc] (IoFail 0))) = 1
   \<and> indexes (snd (Append (fresh_block 2048) [entry_abc] (IoFail 0)))
       = [\<lparr>startOffset = 1024, length_bi = 7\<rparr>]
   \<and> writeOffset (snd (Append (fresh_block 2048) [entry_abc] (IoFail 3))) = 1027"
  by (simp add: block_defs)

section \<open>The append path stores what it is given\<close>

lemma fresh_block_holds:
  "1024 \<le> unat cap \<Longrightarrow> holds_entries (fresh_block cap) 1024 []"
  by (simp add: holds_entries_def fresh_block_def frames_def be32_def be64_def)

lemma Append_holds:
  assumes h: "holds_entries b base es"
    and wo: "writeOffset b = of_nat (base + length (frames es))"
    and cur: "cursor (physicalFile b) = base + length (frames es)"
    and ok: "fst (Append b es' IoOk) = None"
  shows "holds_entries (snd (Append b es' IoOk)) base (es @ es')"
    and "writeOffset (snd (Append b es' IoOk)) = of_nat (base + length (frames (es @ es')))"
    and "cursor (physicalFile (snd (Append b es' IoOk))) = base + length (frames (es @ es'))"
proof -
  let ?r = "snd (Append b es' IoOk)"
  have reg: "take (length (frames es)) (drop base (contents (physicalFile b))) = frames es"
    and fits: "base + length (frames es) \<le> length (contents (physicalFile b))"
    and nb: "number b = of_nat (length es)" and idx: "indexes b = index_of base es"
    using h by (simp_all add: holds_entries_def)
  have all: "holds_entries ?r base (es @ es')
     \<and> writeOffset ?r = of_nat (base + length (frames (es @ es')))
     \<and> cursor (physicalFile ?r) = base + length (frames (es @ es'))"
  proof (cases "es' = []")
    case True
    then show ?thesis using h wo cur
      by (simp add: Append_def Append_body_def holds_entries_def)
  next
    case False
    have "provisional (of_nat (base + length (frames es))) 0 es'
            = index_of (base + length (frames es)) es'"
      using provisional_index_of [of "base + length (frames es)" 0 es'] by simp
    then have pi: "provisional (of_nat base + of_nat (length (frames es))) 0 es'
                = index_of (base + length (frames es)) es'"
      by simp
    have r1: "take (length (frames es) + length (frames es'))
                (drop base (put_at (contents (physicalFile b)) (base + length (frames es))
                   (frames es'))) = frames es @ frames es'"
      using put_at_region(1) [OF reg fits, of "frames es'"] by simp
    have r2: "base + (length (frames es) + length (frames es'))
                \<le> length (put_at (contents (physicalFile b)) (base + length (frames es))
                     (frames es'))"
      using put_at_region(2) [OF reg fits, of "frames es'"] by simp
    show ?thesis
      using False ok
      by (simp add: Append_def Append_body_def marshal_entries_eq file_Write_def
          holds_entries_def wo cur nb idx pi r1 r2 index_of_append frames_append
          length_provisional length_index_of add.assoc
          split: if_splits)
  qed
  then show "holds_entries ?r base (es @ es')"
    and "writeOffset ?r = of_nat (base + length (frames (es @ es')))"
    and "cursor (physicalFile ?r) = base + length (frames (es @ es'))"
    by simp_all
qed

section \<open>Read\<close>













section \<open>Closing for writes\<close>


lemma wait_appends_zero: "uncompletedAppendRequestCount b = 0 \<Longrightarrow> wait_appends b = Some b"
  by (subst wait_appends.simps) simp

text \<open>
  Between two operations no append is pending (\<^verbatim>\<open>Append\<close> leaves the counter as it
  found it), and then \<^verbatim>\<open>CloseWrite\<close> returns.
\<close>

lemma CloseWrite_returns:
  "uncompletedAppendRequestCount b = 0 \<Longrightarrow> \<exists>r. CloseWrite b w1 w2 = Some r"
  by (simp add: CloseWrite_def wait_appends_zero split: prod.splits option.splits)







section \<open>Index recovery\<close>

text \<open>
  C1. The claim: the full-block path, the rebuild path and the live append path give the
  same index records. For the block with the one entry \<open>abc\<close>, the append path records
  \<open>(1024, 7)\<close> and the full-block path reads \<open>(1024, 7)\<close> back from the index region, but
  the rebuild path records the value of the length prefix, not the framed size:
  \<open>(1024, 3)\<close>.
\<close>

theorem rebuild_differs_from_append:
  "indexes block_one = [\<lparr>startOffset = 1024, length_bi = 7\<rparr>]
   \<and> fst (persistIndex (block_one\<lparr>fullFlag := Some True\<rparr>) IoOk) = None
   \<and> fst (loadIndex (snd (persistIndex (block_one\<lparr>fullFlag := Some True\<rparr>) IoOk))) = None
   \<and> indexes (snd (loadIndex (snd (persistIndex (block_one\<lparr>fullFlag := Some True\<rparr>) IoOk))))
       = [\<lparr>startOffset = 1024, length_bi = 7\<rparr>]
   \<and> fst (loadIndex block_one) = None
   \<and> indexes (snd (loadIndex block_one)) = [\<lparr>startOffset = 1024, length_bi = 3\<rparr>]"
  by (simp add: block_defs)

text \<open>
  C8. The claim: after every successful \<^verbatim>\<open>Initialize\<close> and \<^verbatim>\<open>Append\<close> each record
  starts at 1024 plus the lengths of the records before it. It holds for the two entries
  appended to a fresh block. After the block is closed for writes and initialised again
  from its file (not full: the rebuild path), the records are \<open>(1024, 3)\<close> and
  \<open>(1031, 5)\<close>, and \<open>1031\<close> is not \<open>1024 + 3\<close>. After \<^verbatim>\<open>Initialize\<close> on a fresh block,
  \<open>writeOffset\<close> is 24, so that the record of the next entry appended starts at 24.
\<close>

theorem packing_lost_by_Initialize:
  "packing block_two
   \<and> map_option fst (CloseWrite block_two IoOk IoOk) = Some None
   \<and> fst (Initialize (snd (the (CloseWrite block_two IoOk IoOk)))) = None
   \<and> indexes (snd (Initialize (snd (the (CloseWrite block_two IoOk IoOk)))))
       = [\<lparr>startOffset = 1024, length_bi = 3\<rparr>, \<lparr>startOffset = 1031, length_bi = 5\<rparr>]
   \<and> \<not> packing (snd (Initialize (snd (the (CloseWrite block_two IoOk IoOk)))))
   \<and> fst (Initialize (fresh_block 2048)) = None
   \<and> fst (Append (snd (Initialize (fresh_block 2048))) [entry_abc] IoOk) = None
   \<and> indexes (snd (Append (snd (Initialize (fresh_block 2048))) [entry_abc] IoOk))
       = [\<lparr>startOffset = 24, length_bi = 7\<rparr>]
   \<and> \<not> packing (snd (Append (snd (Initialize (fresh_block 2048))) [entry_abc] IoOk))"
  by (simp add: block_defs packing_def)

end
